theory Spec2Isabelle
  imports Main
begin

section \<open>The extension registry\<close>

text \<open>
  The registry is the object literal \<open>Extensions\<close> of the extension-assets package, a
  \<open>Record<string, ExtensionConfig>\<close>, which the provider imports as \<open>extensions\<close>. An
  object used as a dictionary is modelled by the list of its own properties in source
  order; \<open>map_of\<close> is the property lookup, with \<open>None\<close> for JavaScript's \<open>undefined\<close>.

  The type \<open>ExtensionConfig\<close> is declared in a module that is not at hand; its fields
  are read off the literal. The \<open>features\<close> field is either the string \<open>"*"\<close> or an
  array of feature names, the \<open>website\<close> field either a plain string or an object with a
  \<open>url\<close> and a \<open>text\<close>.
\<close>

datatype ExtensionFeatures = Wildcard | FeatureList "string list"

datatype Website = Domain string | Link string string

datatype Category = WebExtension | Hardware

record ExtensionConfig =
  title :: string
  website :: Website
  category :: Category
  features :: ExtensionFeatures

definition Extensions :: "(string \<times> ExtensionConfig) list" where
  "Extensions =
    [(''enkrypt'',
        \<lparr>title = ''Enkrypt'', website = Domain ''enkrypt.com'',
         category = WebExtension, features = Wildcard\<rparr>),
     (''fearless-wallet'',
        \<lparr>title = ''Fearless Wallet'', website = Domain ''fearlesswallet.io'',
         category = WebExtension, features = Wildcard\<rparr>),
     (''metamask-polkadot-snap'',
        \<lparr>title = ''MetaMask Polkadot Snap'',
         website = Link ''snaps.metamask.io/snap/npm/chainsafe/polkadot-snap''
                        ''snaps.metamask.io'',
         category = WebExtension,
         features = FeatureList [''getAccounts'', ''signer'']\<rparr>),
     (''polkagate'',
        \<lparr>title = ''PolkaGate'', website = Domain ''polkagate.xyz'',
         category = WebExtension, features = Wildcard\<rparr>),
     (''subwallet-js'',
        \<lparr>title = ''SubWallet'', website = Domain ''subwallet.app'',
         category = WebExtension, features = Wildcard\<rparr>),
     (''talisman'',
        \<lparr>title = ''Talisman'', website = Domain ''talisman.xyz'',
         category = WebExtension, features = Wildcard\<rparr>),
     (''polkadot-js'',
        \<lparr>title = ''Polkadot JS'', website = Domain ''polkadot.js.org/extension'',
         category = WebExtension, features = Wildcard\<rparr>),
     (''nova-wallet'',
        \<lparr>title = ''Nova Wallet'', website = Domain ''novawallet.io'',
         category = WebExtension, features = Wildcard\<rparr>),
     (''ledger'',
        \<lparr>title = ''Ledger'', website = Domain ''ledger.com'',
         category = Hardware, features = FeatureList []\<rparr>),
     (''polkadotvault'',
        \<lparr>title = ''Polkadot Vault'', website = Domain ''signer.parity.io/'',
         category = Hardware, features = FeatureList []\<rparr>),
     (''walletconnect'',
        \<lparr>title = ''WalletConnect'', website = Domain ''walletconnect.com'',
         category = Hardware, features = FeatureList []\<rparr>)]"

subsection \<open>The feature check\<close>

text \<open>
  \<^verbatim>\<open>
  const extensionHasFeature = (id: string, feature: string): boolean => {
    const { features } = extensions[id];
    if (features === "*" || features.includes(feature)) {
      return true;
    } else {
      return false;
    }
  };
  \<close>
  The lookup \<open>extensions[id]\<close> is not guarded. For an id that is no key of the registry
  it is \<open>undefined\<close>, and destructuring \<open>undefined\<close> throws a \<open>TypeError\<close> before
  either branch is reached. The throw is the \<open>Inl\<close> branch of the model. (A name that
  the object inherits, such as \<open>constructor\<close>, ends the same way one step later: the
  inherited value has no \<open>features\<close>, and \<open>features.includes\<close> throws the
  \<open>TypeError\<close>.) On an array, \<open>includes\<close> is membership.
\<close>

datatype js_error = TypeError

definition extensionHasFeature :: "string \<Rightarrow> string \<Rightarrow> js_error + bool" where
  "extensionHasFeature eid feature =
     (case map_of Extensions eid of
        None \<Rightarrow> Inl TypeError
      | Some cfg \<Rightarrow>
          (case features cfg of
             Wildcard \<Rightarrow> Inr True
           | FeatureList fs \<Rightarrow> if feature \<in> set fs then Inr True else Inr False))"

section \<open>The extension status tracker\<close>

text \<open>
  \<open>ExtensionsProvider\<close> is a React function component. Its hooks are the fields of the
  record \<open>tracker\<close>: the two \<open>useState\<close> values \<open>checkingInjectedWeb3\<close> and
  \<open>extensionsStatus\<close> as the latest render sees them, the \<open>useRef\<close> cells that mirror
  them, the cells \<open>intervalInitialisedRef\<close> and \<open>injectCounter\<close>, and the state
  \<open>polkaGateSnapEnabled\<close>, which has no setter. Two fields stand for the environment:
  \<open>injectedWeb3IntervalLive\<close> tells whether the timer whose handle is kept in
  \<open>injectedWeb3Interval\<close> is still scheduled, and \<open>snapProbe\<close> where the awaited call
  \<open>withTimeout(500, web3Enable("snap_only"))\<close> stands: not issued, pending, \<open>Done\<close>
  when the awaited promise was fulfilled and the function ran to its end, \<open>Failed\<close> when
  it was rejected.

  A status mapping \<open>Record<string, ExtensionStatus>\<close> is the map of the object's own
  properties, from ids to statuses. The objects are plain ones (\<open>{}\<close> and copies made
  by spreading), so reading a property that is not their own goes on to
  \<open>Object.prototype\<close>; \<open>getProperty\<close> below is that read.
\<close>

text \<open>
  Modelled from the spec: the type \<open>ExtensionStatus\<close>, declared in the provider's
  \<open>types\<close> module, which is not at hand. The spec lists \<open>installed\<close> and \<open>connected\<close>
  and treats any other status the host reports as an opaque string; the code compares a
  status with the string \<open>"connected"\<close>.
\<close>

type_synonym ExtensionStatus = string

record Options =
  chainSafeSnapEnabled :: "bool option"
  polkagateSnapEnabled :: "bool option"

datatype probe = NotIssued | Pending | Done | Failed

record tracker =
  checkingInjectedWeb3 :: bool
  checkingInjectedWeb3Ref :: bool
  intervalInitialisedRef :: bool
  extensionsStatus :: "string \<rightharpoonup> ExtensionStatus"
  extensionsStatusRef :: "string \<rightharpoonup> ExtensionStatus"
  polkaGateSnapEnabled :: bool
  injectCounter :: nat
  injectedWeb3IntervalLive :: bool
  snapProbe :: probe

text \<open>
  The interval and the number of checks. Time is not part of the model: the event
  \<open>Tick\<close> below is one period of \<open>checkEveryMs\<close> milliseconds coming to its end.
\<close>

definition checkEveryMs :: nat where
  "checkEveryMs = 300"

definition totalChecks :: nat where
  "totalChecks = 10"

subsection \<open>The effect and re-rendering\<close>

text \<open>
  \<^verbatim>\<open>
  useEffect(() => {
    if (!intervalInitialisedRef.current) {
      intervalInitialisedRef.current = true;
      injectedWeb3Interval = setInterval(() => { ... }, checkEveryMs);
    }
    return () => clearInterval(injectedWeb3Interval);
  });
  \<close>
  The effect has no dependency array: React runs it after every render, and runs the
  clean-up returned by the previous run before it. Only the first run starts a timer, so
  the clean-up of the first run is the one that holds its handle.
\<close>

definition useEffect_cleanup :: "tracker \<Rightarrow> tracker" where
  "useEffect_cleanup t = t\<lparr>injectedWeb3IntervalLive := False\<rparr>"

definition useEffect_run :: "tracker \<Rightarrow> tracker" where
  "useEffect_run t =
     (if \<not> intervalInitialisedRef t
      then t\<lparr>intervalInitialisedRef := True, injectedWeb3IntervalLive := True\<rparr>
      else t)"

definition rerender :: "tracker \<Rightarrow> tracker" where
  "rerender t = useEffect_run (useEffect_cleanup t)"

text \<open>A \<open>useState\<close> setter is taken together with the render it schedules.\<close>

definition setCheckingInjectedWeb3 :: "bool \<Rightarrow> tracker \<Rightarrow> tracker" where
  "setCheckingInjectedWeb3 v t = rerender (t\<lparr>checkingInjectedWeb3 := v\<rparr>)"

definition setExtensionsStatus :: "(string \<rightharpoonup> ExtensionStatus) \<Rightarrow> tracker \<Rightarrow> tracker" where
  "setExtensionsStatus m t = rerender (t\<lparr>extensionsStatus := m\<rparr>)"

text \<open>
  \<^verbatim>\<open>
  export const setStateWithRef = <T>(value: T, setState: (_state: T) => void,
    ref: MutableRefObject<T>): void => {
    setState(value);
    ref.current = value;
  };
  \<close>
\<close>

definition setStateWithRef :: "'a \<Rightarrow> ('a \<Rightarrow> 's \<Rightarrow> 's) \<Rightarrow> ('a \<Rightarrow> 's \<Rightarrow> 's) \<Rightarrow> 's \<Rightarrow> 's" where
  "setStateWithRef v setState assignRef t = assignRef v (setState v t)"

subsection \<open>The snap probe\<close>

datatype probe_outcome = Resolved | Rejected | TimedOut

datatype rejection = ProbeRejected

text \<open>
  Modelled from the spec: \<open>withTimeout\<close> of the package \<open>@w3ux/utils\<close>, which the
  provider imports and whose source is not at hand. In the spec the probe is an
  asynchronous operation that the tracker awaits with a fixed timeout and whose
  resolution or rejection it sees; when the probe does not resolve within the timeout
  the tracker proceeds without error propagation. So the promise that
  \<open>handleSnapInjection\<close> awaits is fulfilled when the probe resolves and when the timeout
  comes first, and rejected when the probe rejects.
\<close>

definition withTimeout :: "nat \<Rightarrow> probe_outcome \<Rightarrow> rejection + unit" where
  "withTimeout ms outcome =
     (case outcome of
        Resolved \<Rightarrow> Inr ()
      | Rejected \<Rightarrow> Inl ProbeRejected
      | TimedOut \<Rightarrow> Inr ())"

text \<open>
  \<^verbatim>\<open>
  const handleSnapInjection = async () => {
    if (polkaGateSnapEnabled) {
      await withTimeout(500, web3Enable("snap_only"));
    }
    setStateWithRef(false, setCheckingInjectedWeb3, checkingInjectedWeb3Ref);
  };
  \<close>
  The async function is split at its \<open>await\<close>. \<open>handleSnapInjection\<close> is the part that
  runs at the call: with the snap enabled it issues the probe and suspends.
  \<open>handleSnapInjection_resume\<close> is the continuation, given what the awaited promise
  settled to: there is no \<open>try\<close> around the \<open>await\<close>, so a rejection leaves the function
  at once. \<open>handleClearInterval\<close> calls the function without awaiting or catching it, so
  the rejection goes no further and the tracker is left as it was.
\<close>

definition handleSnapInjection :: "tracker \<Rightarrow> tracker" where
  "handleSnapInjection t =
     (if polkaGateSnapEnabled t
      then t\<lparr>snapProbe := Pending\<rparr>
      else setStateWithRef False setCheckingInjectedWeb3
             (\<lambda>v s. s\<lparr>checkingInjectedWeb3Ref := v\<rparr>) t)"

definition handleSnapInjection_resume :: "rejection + unit \<Rightarrow> tracker \<Rightarrow> rejection + tracker" where
  "handleSnapInjection_resume awaited t =
     (case awaited of
        Inl e \<Rightarrow> Inl e
      | Inr _ \<Rightarrow> Inr (setStateWithRef False setCheckingInjectedWeb3
                        (\<lambda>v s. s\<lparr>checkingInjectedWeb3Ref := v\<rparr>) t))"

subsection \<open>The polling interval\<close>

text \<open>
  \<^verbatim>\<open>
  const handleClearInterval = () => {
    clearInterval(injectedWeb3Interval);
    handleSnapInjection();
  };
  ...
  injectedWeb3Interval = setInterval(() => {
    injectCounter.current++;
    if (injectCounter.current === totalChecks) {
      handleClearInterval();
    }
  }, checkEveryMs);
  \<close>
\<close>

definition handleClearInterval :: "tracker \<Rightarrow> tracker" where
  "handleClearInterval t = handleSnapInjection (t\<lparr>injectedWeb3IntervalLive := False\<rparr>)"

definition intervalCallback :: "tracker \<Rightarrow> tracker" where
  "intervalCallback t =
     (let t' = t\<lparr>injectCounter := injectCounter t + 1\<rparr>
      in if injectCounter t' = totalChecks then handleClearInterval t' else t')"

subsection \<open>Status operations and queries\<close>

text \<open>
  \<^verbatim>\<open>
  const setExtensionStatus = (id: string, status: ExtensionStatus) => {
    setStateWithRef({ ...extensionsStatusRef.current, [id]: status },
      setExtensionsStatus, extensionsStatusRef);
  };
  const removeExtensionStatus = (id: string) => {
    const newExtensionsStatus = { ...extensionsStatusRef.current };
    delete newExtensionsStatus[id];
    setStateWithRef(newExtensionsStatus, setExtensionsStatus, extensionsStatusRef);
  };
  const extensionInstalled = (id: string): boolean =>
    extensionsStatus[id] !== undefined;
  const extensionCanConnect = (id: string): boolean =>
    extensionInstalled(id) && extensionsStatus[id] !== "connected";
  \<close>
  Both setters read the ref and write state and ref; both queries read the state.

  The read \<open>extensionsStatus[id]\<close> gives the status when the object has a property of
  its own for the id. Otherwise it gives what \<open>Object.prototype\<close> has under that name: a
  function or an object for each of the member names of \<open>objectPrototypeMembers\<close> (the
  properties of \<open>Object.prototype\<close> in a browser), and \<open>undefined\<close> for any other name.
  An inherited value is neither \<open>undefined\<close> nor a string.
\<close>

definition objectPrototypeMembers :: "string list" where
  "objectPrototypeMembers =
     [''constructor'', ''hasOwnProperty'', ''isPrototypeOf'', ''propertyIsEnumerable'',
      ''toLocaleString'', ''toString'', ''valueOf'', ''__proto__'',
      ''__defineGetter__'', ''__defineSetter__'', ''__lookupGetter__'',
      ''__lookupSetter__'']"

datatype js_value = Undefined | StatusValue ExtensionStatus | InheritedMember

definition getProperty :: "(string \<rightharpoonup> ExtensionStatus) \<Rightarrow> string \<Rightarrow> js_value" where
  "getProperty obj key =
     (case obj key of
        Some status \<Rightarrow> StatusValue status
      | None \<Rightarrow> if key \<in> set objectPrototypeMembers then InheritedMember else Undefined)"

definition setExtensionStatus :: "string \<Rightarrow> ExtensionStatus \<Rightarrow> tracker \<Rightarrow> tracker" where
  "setExtensionStatus eid status t =
     setStateWithRef ((extensionsStatusRef t)(eid \<mapsto> status)) setExtensionsStatus
       (\<lambda>m s. s\<lparr>extensionsStatusRef := m\<rparr>) t"

definition removeExtensionStatus :: "string \<Rightarrow> tracker \<Rightarrow> tracker" where
  "removeExtensionStatus eid t =
     (let newExtensionsStatus = (extensionsStatusRef t)(eid := None)
      in setStateWithRef newExtensionsStatus setExtensionsStatus
           (\<lambda>m s. s\<lparr>extensionsStatusRef := m\<rparr>) t)"

definition extensionInstalled :: "tracker \<Rightarrow> string \<Rightarrow> bool" where
  "extensionInstalled t eid = (getProperty (extensionsStatus t) eid \<noteq> Undefined)"

definition extensionCanConnect :: "tracker \<Rightarrow> string \<Rightarrow> bool" where
  "extensionCanConnect t eid =
     (extensionInstalled t eid \<and>
      getProperty (extensionsStatus t) eid \<noteq> StatusValue ''connected'')"

subsection \<open>Mounting and running\<close>

text \<open>
  \<open>ExtensionsProvider options\<close> is the tracker after the first render and the first run
  of the effect. \<open>options\<close> and each of its fields may be missing;
  \<open>options?.polkagateSnapEnabled || false\<close> is the one place where they are read.
\<close>

definition ExtensionsProvider :: "Options option \<Rightarrow> tracker" where
  "ExtensionsProvider options =
     useEffect_run
       \<lparr>checkingInjectedWeb3 = True,
        checkingInjectedWeb3Ref = True,
        intervalInitialisedRef = False,
        extensionsStatus = Map.empty,
        extensionsStatusRef = Map.empty,
        polkaGateSnapEnabled =
          (case options of
             None \<Rightarrow> False
           | Some opts \<Rightarrow>
               (case polkagateSnapEnabled opts of None \<Rightarrow> False | Some b \<Rightarrow> b)),
        injectCounter = 0,
        injectedWeb3IntervalLive = False,
        snapProbe = NotIssued\<rparr>"

text \<open>
  What can happen to a mounted tracker: the interval timer comes due, the awaited probe
  settles, a consumer calls one of the two status setters, or the component is rendered
  again for a reason of its parent's. A timer that was cleared does not fire, and a
  promise settles once.
\<close>

datatype event =
    Tick
  | ProbeSettles probe_outcome
  | SetExtensionStatus string ExtensionStatus
  | RemoveExtensionStatus string
  | Rerender

fun step :: "tracker \<Rightarrow> event \<Rightarrow> tracker" where
  "step t Tick = (if injectedWeb3IntervalLive t then intervalCallback t else t)"
| "step t (ProbeSettles outcome) =
     (if snapProbe t = Pending
      then (case handleSnapInjection_resume (withTimeout 500 outcome) (t\<lparr>snapProbe := Done\<rparr>) of
              Inl e \<Rightarrow> t\<lparr>snapProbe := Failed\<rparr>
            | Inr t' \<Rightarrow> t')
      else t)"
| "step t (SetExtensionStatus eid status) = setExtensionStatus eid status t"
| "step t (RemoveExtensionStatus eid) = removeExtensionStatus eid t"
| "step t Rerender = rerender t"

definition run :: "tracker \<Rightarrow> event list \<Rightarrow> tracker" where
  "run t es = foldl step t es"

text \<open>The values of the flag along a run, the starting state included.\<close>

fun flag_trace :: "tracker \<Rightarrow> event list \<Rightarrow> bool list" where
  "flag_trace t [] = [checkingInjectedWeb3 t]"
| "flag_trace t (e # es) = checkingInjectedWeb3 t # flag_trace (step t e) es"

subsection \<open>What holds of every tracker a run can reach\<close>

text \<open>
  The counter never passes \<open>totalChecks\<close>, the timer is live only below it, the probe
  has been issued exactly when the counter is at the bound and the snap is enabled, the
  flag is down exactly when the counter is at the bound and the probe (if any) is done,
  that is, its promise was fulfilled, and each ref mirrors its state.
\<close>

definition polling_inv :: "tracker \<Rightarrow> bool" where
  "polling_inv t =
     (injectCounter t \<le> totalChecks \<and>
      intervalInitialisedRef t \<and>
      (injectedWeb3IntervalLive t \<longrightarrow> injectCounter t < totalChecks) \<and>
      (snapProbe t = NotIssued \<longleftrightarrow>
         (injectCounter t < totalChecks \<or> \<not> polkaGateSnapEnabled t)) \<and>
      (checkingInjectedWeb3 t \<longleftrightarrow>
         \<not> (injectCounter t = totalChecks \<and>
            (polkaGateSnapEnabled t \<longrightarrow> snapProbe t = Done))) \<and>
      checkingInjectedWeb3Ref t = checkingInjectedWeb3 t \<and>
      extensionsStatus t = extensionsStatusRef t)"

text \<open>
  A tracker whose timer was cleared before the counter reached the bound: nothing is
  left to move it.
\<close>

definition stalled :: "tracker \<Rightarrow> bool" where
  "stalled t =
     (checkingInjectedWeb3 t \<and> intervalInitialisedRef t \<and> \<not> injectedWeb3IntervalLive t \<and>
      injectCounter t < totalChecks \<and> snapProbe t = NotIssued)"

text \<open>
  A tracker whose probe was rejected: the timer is gone, the continuation of
  \<open>handleSnapInjection\<close> has been left, and nothing else sets the flag.
\<close>

definition probe_failed :: "tracker \<Rightarrow> bool" where
  "probe_failed t =
     (checkingInjectedWeb3 t \<and> checkingInjectedWeb3Ref t \<and> intervalInitialisedRef t \<and>
      \<not> injectedWeb3IntervalLive t \<and> snapProbe t = Failed)"

section \<open>The feature check on the registry\<close>

lemma extensionHasFeature_absent:
  "map_of Extensions eid = None \<Longrightarrow> extensionHasFeature eid feature = Inl TypeError"
  by (simp add: extensionHasFeature_def)

lemma extensionHasFeature_present:
  "map_of Extensions eid = Some cfg \<Longrightarrow>
   extensionHasFeature eid feature =
     Inr (case features cfg of Wildcard \<Rightarrow> True | FeatureList fs \<Rightarrow> feature \<in> set fs)"
  by (simp add: extensionHasFeature_def split: ExtensionFeatures.splits)

lemma map_of_Extensions_None:
  "map_of Extensions eid = None \<longleftrightarrow> eid \<notin> fst ` set Extensions"
  by (rule map_of_eq_None_iff)

text \<open>
  Claim C1, as the code has it. For an id that is not a key of the registry the feature
  check does not return false: the descriptor lookup gives \<open>undefined\<close> and the call
  raises a \<open>TypeError\<close>. It returns a boolean exactly for the ids that are keys of the
  registry.
\<close>

theorem extensionHasFeature_raises_iff_unregistered:
  "(extensionHasFeature eid feature = Inl TypeError) = (eid \<notin> fst ` set Extensions) \<and>
   (\<exists>b. extensionHasFeature eid feature = Inr b) = (eid \<in> fst ` set Extensions)"
proof (cases "map_of Extensions eid")
  case None
  then have "eid \<notin> fst ` set Extensions"
    by (simp add: map_of_Extensions_None)
  with None show ?thesis
    by (simp add: extensionHasFeature_absent)
next
  case (Some cfg)
  then have "eid \<in> fst ` set Extensions"
    using map_of_Extensions_None [of eid] by simp
  with Some show ?thesis
    by (simp add: extensionHasFeature_present)
qed

theorem extensionHasFeature_raises_iff_unregistered_witness:
  "''unknown-wallet'' \<notin> fst ` set Extensions \<and>
   extensionHasFeature ''unknown-wallet'' ''signer'' = Inl TypeError \<and>
   ''talisman'' \<in> fst ` set Extensions \<and>
   (\<exists>b. extensionHasFeature ''talisman'' ''signer'' = Inr b)"
  using extensionHasFeature_raises_iff_unregistered [of "''unknown-wallet''" "''signer''"]
    extensionHasFeature_raises_iff_unregistered [of "''talisman''" "''signer''"]
  by (simp add: Extensions_def)

text \<open>
  Claim C1 as it is stated fails: \<open>unknown-wallet\<close> is not a key of the registry, and the
  feature check on it raises instead of returning false.
\<close>

theorem extensionHasFeature_unknown_counterexample:
  "map_of Extensions ''unknown-wallet'' = None \<and>
   extensionHasFeature ''unknown-wallet'' ''signer'' = Inl TypeError \<and>
   extensionHasFeature ''unknown-wallet'' ''signer'' \<noteq> Inr False"
  by (simp add: extensionHasFeature_def Extensions_def)

text \<open>
  Claim C7. For an id whose descriptor has the wildcard marker the feature check is true
  for every feature string; for an id whose descriptor lists its features it is true
  exactly for the members of the list. So it is false for every feature on the three
  hardware entries, whose lists are empty, and true for every feature on the seven
  wildcard entries.
\<close>

theorem extensionHasFeature_registered:
  "(map_of Extensions eid = Some cfg \<longrightarrow>
      extensionHasFeature eid feature =
        Inr (case features cfg of Wildcard \<Rightarrow> True | FeatureList fs \<Rightarrow> feature \<in> set fs)) \<and>
   extensionHasFeature ''ledger'' feature = Inr False \<and>
   extensionHasFeature ''polkadotvault'' feature = Inr False \<and>
   extensionHasFeature ''walletconnect'' feature = Inr False \<and>
   extensionHasFeature ''metamask-polkadot-snap'' feature =
     Inr (feature = ''getAccounts'' \<or> feature = ''signer'') \<and>
   (\<forall>w \<in> {''enkrypt'', ''fearless-wallet'', ''polkagate'', ''subwallet-js'', ''talisman'',
          ''polkadot-js'', ''nova-wallet''}. extensionHasFeature w feature = Inr True)"
proof -
  have general: "map_of Extensions eid = Some cfg \<longrightarrow>
      extensionHasFeature eid feature =
        Inr (case features cfg of Wildcard \<Rightarrow> True | FeatureList fs \<Rightarrow> feature \<in> set fs)"
    by (simp add: extensionHasFeature_present)
  have hardware: "extensionHasFeature ''ledger'' feature = Inr False"
    "extensionHasFeature ''polkadotvault'' feature = Inr False"
    "extensionHasFeature ''walletconnect'' feature = Inr False"
    by (simp_all add: extensionHasFeature_def Extensions_def)
  have snap: "extensionHasFeature ''metamask-polkadot-snap'' feature =
     Inr (feature = ''getAccounts'' \<or> feature = ''signer'')"
    by (simp add: extensionHasFeature_def Extensions_def)
  have wild: "\<forall>w \<in> {''enkrypt'', ''fearless-wallet'', ''polkagate'', ''subwallet-js'',
      ''talisman'', ''polkadot-js'', ''nova-wallet''}. extensionHasFeature w feature = Inr True"
    by (simp add: extensionHasFeature_def Extensions_def)
  from general hardware snap wild show ?thesis by blast
qed

theorem extensionHasFeature_registered_witness:
  "map_of Extensions ''metamask-polkadot-snap'' =
     Some \<lparr>title = ''MetaMask Polkadot Snap'',
           website = Link ''snaps.metamask.io/snap/npm/chainsafe/polkadot-snap''
                          ''snaps.metamask.io'',
           category = WebExtension,
           features = FeatureList [''getAccounts'', ''signer'']\<rparr> \<and>
   extensionHasFeature ''metamask-polkadot-snap'' ''signer'' = Inr True \<and>
   extensionHasFeature ''metamask-polkadot-snap'' ''subscribeAccounts'' = Inr False \<and>
   ''talisman'' \<in> {''enkrypt'', ''fearless-wallet'', ''polkagate'', ''subwallet-js'',
      ''talisman'', ''polkadot-js'', ''nova-wallet''} \<and>
   extensionHasFeature ''talisman'' ''anything at all'' = Inr True"
proof -
  have key: "map_of Extensions ''metamask-polkadot-snap'' =
     Some \<lparr>title = ''MetaMask Polkadot Snap'',
           website = Link ''snaps.metamask.io/snap/npm/chainsafe/polkadot-snap''
                          ''snaps.metamask.io'',
           category = WebExtension,
           features = FeatureList [''getAccounts'', ''signer'']\<rparr>"
    by (simp add: Extensions_def)
  have "extensionHasFeature ''metamask-polkadot-snap'' ''signer'' = Inr True"
    using extensionHasFeature_registered [of "''metamask-polkadot-snap''" _ "''signer''"] key
    by simp
  moreover have "extensionHasFeature ''metamask-polkadot-snap'' ''subscribeAccounts'' = Inr False"
    using extensionHasFeature_registered [of "''metamask-polkadot-snap''" _ "''subscribeAccounts''"] key
    by simp
  moreover have "extensionHasFeature ''talisman'' ''anything at all'' = Inr True"
    using extensionHasFeature_registered [of _ _ "''anything at all''"] by simp
  ultimately show ?thesis using key by simp
qed

section \<open>The status mapping\<close>

lemmas tracker_defs =
  useEffect_cleanup_def useEffect_run_def rerender_def setCheckingInjectedWeb3_def
  setExtensionsStatus_def setStateWithRef_def withTimeout_def handleSnapInjection_def
  handleSnapInjection_resume_def handleClearInterval_def intervalCallback_def
  setExtensionStatus_def removeExtensionStatus_def

lemma setExtensionStatus_maps:
  "extensionsStatusRef (setExtensionStatus eid status t) = (extensionsStatusRef t)(eid \<mapsto> status)"
  "extensionsStatus (setExtensionStatus eid status t) = (extensionsStatusRef t)(eid \<mapsto> status)"
  by (simp_all add: tracker_defs)

lemma removeExtensionStatus_maps:
  "extensionsStatusRef (removeExtensionStatus eid t) = (extensionsStatusRef t)(eid := None)"
  "extensionsStatus (removeExtensionStatus eid t) = (extensionsStatusRef t)(eid := None)"
  by (simp_all add: tracker_defs Let_def)








text \<open>
  Claim C5. Whatever the id (a key of the registry or not), the status and the mapping,
  after \<open>setExtensionStatus(id, status)\<close> the entry of the mapping for the id is the status,
  any earlier entry being overwritten, and the entry of every other id is what it was;
  the state is the same mapping as the ref. Setting \<open>talisman\<close> to \<open>installed\<close> and then to
  \<open>connected\<close> on the empty mapping of a new tracker leaves exactly one entry, with status
  \<open>connected\<close>.
\<close>

theorem setExtensionStatus_upsert:
  "extensionsStatusRef (setExtensionStatus eid status t) eid = Some status \<and>
   (\<forall>other. other \<noteq> eid \<longrightarrow>
      extensionsStatusRef (setExtensionStatus eid status t) other = extensionsStatusRef t other) \<and>
   extensionsStatus (setExtensionStatus eid status t) =
     extensionsStatusRef (setExtensionStatus eid status t) \<and>
   extensionsStatusRef
     (run (ExtensionsProvider options)
        [SetExtensionStatus ''talisman'' ''installed'',
         SetExtensionStatus ''talisman'' ''connected'']) = [''talisman'' \<mapsto> ''connected''] \<and>
   dom (extensionsStatusRef
     (run (ExtensionsProvider options)
        [SetExtensionStatus ''talisman'' ''installed'',
         SetExtensionStatus ''talisman'' ''connected''])) = {''talisman''}"
proof -
  have empty: "extensionsStatusRef (ExtensionsProvider options) = Map.empty"
    by (simp add: ExtensionsProvider_def useEffect_run_def)
  have scenario: "extensionsStatusRef
     (run (ExtensionsProvider options)
        [SetExtensionStatus ''talisman'' ''installed'',
         SetExtensionStatus ''talisman'' ''connected'']) = [''talisman'' \<mapsto> ''connected'']"
    by (simp add: run_def setExtensionStatus_maps empty)
  then show ?thesis
    by (simp add: setExtensionStatus_maps)
qed

theorem setExtensionStatus_upsert_witness:
  "''ledger'' \<noteq> ''talisman'' \<and>
   extensionsStatusRef
     (setExtensionStatus ''talisman'' ''connected''
        (setExtensionStatus ''ledger'' ''installed'' (ExtensionsProvider None))) ''ledger'' =
     Some ''installed'' \<and>
   extensionsStatusRef
     (setExtensionStatus ''talisman'' ''connected''
        (setExtensionStatus ''ledger'' ''installed'' (ExtensionsProvider None))) ''talisman'' =
     Some ''connected''"
proof -
  let ?t = "setExtensionStatus ''ledger'' ''installed'' (ExtensionsProvider None)"
  have other: "''ledger'' \<noteq> ''talisman''" by simp
  have before: "extensionsStatusRef ?t ''ledger'' = Some ''installed''"
    by (simp add: tracker_defs)
  from setExtensionStatus_upsert [of "''talisman''" "''connected''" ?t None] other before
  show ?thesis by simp
qed

text \<open>
  Claim C8. Removing the status of an id that has no record is not an error: the call
  returns, and the mapping after it, in the ref and in the state, is the mapping before
  it.
\<close>

theorem removeExtensionStatus_absent_noop:
  "extensionsStatusRef t eid = None \<Longrightarrow>
   extensionsStatusRef (removeExtensionStatus eid t) = extensionsStatusRef t \<and>
   extensionsStatus (removeExtensionStatus eid t) = extensionsStatusRef t \<and>
   (extensionsStatus t = extensionsStatusRef t \<longrightarrow>
      extensionsStatus (removeExtensionStatus eid t) = extensionsStatus t)"
proof -
  assume absent: "extensionsStatusRef t eid = None"
  have "(extensionsStatusRef t)(eid := None) = extensionsStatusRef t"
    using absent by (simp add: fun_eq_iff)
  then show ?thesis
    by (simp add: removeExtensionStatus_maps)
qed

theorem removeExtensionStatus_absent_noop_witness:
  "extensionsStatusRef
     (setExtensionStatus ''talisman'' ''installed'' (ExtensionsProvider None)) ''ledger'' = None \<and>
   extensionsStatus (setExtensionStatus ''talisman'' ''installed'' (ExtensionsProvider None)) =
     extensionsStatusRef (setExtensionStatus ''talisman'' ''installed'' (ExtensionsProvider None)) \<and>
   extensionsStatusRef
     (removeExtensionStatus ''ledger''
        (setExtensionStatus ''talisman'' ''installed'' (ExtensionsProvider None))) =
     [''talisman'' \<mapsto> ''installed''] \<and>
   extensionsStatus
     (removeExtensionStatus ''ledger''
        (setExtensionStatus ''talisman'' ''installed'' (ExtensionsProvider None))) =
     [''talisman'' \<mapsto> ''installed'']"
proof -
  let ?t = "setExtensionStatus ''talisman'' ''installed'' (ExtensionsProvider None)"
  have maps: "extensionsStatusRef ?t = [''talisman'' \<mapsto> ''installed'']"
    "extensionsStatus ?t = [''talisman'' \<mapsto> ''installed'']"
    by (simp_all add: setExtensionStatus_maps ExtensionsProvider_def useEffect_run_def)
  then have absent: "extensionsStatusRef ?t ''ledger'' = None" by simp
  from removeExtensionStatus_absent_noop [OF absent] maps absent
  show ?thesis by simp
qed

text \<open>
  Claim C10. On a mapping with no record for an id, setting a status for the id and then
  removing the id gives the mapping back, entry by entry, in the ref and in the state.
\<close>

theorem removeExtensionStatus_setExtensionStatus_inverse:
  "extensionsStatusRef t eid = None \<Longrightarrow>
   extensionsStatusRef (removeExtensionStatus eid (setExtensionStatus eid status t)) =
     extensionsStatusRef t \<and>
   extensionsStatus (removeExtensionStatus eid (setExtensionStatus eid status t)) =
     extensionsStatusRef t \<and>
   (\<forall>other. extensionsStatusRef (removeExtensionStatus eid (setExtensionStatus eid status t)) other
      = extensionsStatusRef t other)"
proof -
  assume absent: "extensionsStatusRef t eid = None"
  have "((extensionsStatusRef t)(eid \<mapsto> status))(eid := None) = extensionsStatusRef t"
    using absent by (simp add: fun_eq_iff)
  then show ?thesis
    by (simp add: removeExtensionStatus_maps setExtensionStatus_maps)
qed

theorem removeExtensionStatus_setExtensionStatus_inverse_witness:
  "extensionsStatusRef (ExtensionsProvider None) ''talisman'' = None \<and>
   extensionsStatusRef
     (removeExtensionStatus ''talisman''
        (setExtensionStatus ''talisman'' ''installed'' (ExtensionsProvider None))) =
     extensionsStatusRef (ExtensionsProvider None) \<and>
   extensionsStatusRef
     (removeExtensionStatus ''talisman''
        (setExtensionStatus ''talisman'' ''installed'' (ExtensionsProvider None))) = Map.empty"
proof -
  have empty: "extensionsStatusRef (ExtensionsProvider None) = Map.empty"
    by (simp add: ExtensionsProvider_def useEffect_run_def)
  then have absent: "extensionsStatusRef (ExtensionsProvider None) ''talisman'' = None"
    by simp
  from removeExtensionStatus_setExtensionStatus_inverse [OF absent, of "''installed''"] empty
  show ?thesis by simp
qed

section \<open>The flag along a run\<close>

lemma polling_inv_init: "polling_inv (ExtensionsProvider options)"
  by (simp add: polling_inv_def ExtensionsProvider_def useEffect_run_def totalChecks_def)

lemma polling_inv_step: "polling_inv t \<Longrightarrow> polling_inv (step t e)"
  by (cases e)
     (auto simp: polling_inv_def tracker_defs totalChecks_def Let_def
           split: probe_outcome.splits)

lemma polling_inv_run: "polling_inv t \<Longrightarrow> polling_inv (run t es)"
  unfolding run_def by (induction es arbitrary: t) (simp_all add: polling_inv_step)

lemma run_ExtensionsProvider_inv: "polling_inv (run (ExtensionsProvider options) es)"
  by (simp add: polling_inv_init polling_inv_run)

lemma snap_const_step: "polkaGateSnapEnabled (step t e) = polkaGateSnapEnabled t"
  by (cases e) (auto simp: tracker_defs Let_def split: probe_outcome.splits)

lemma snap_const_run: "polkaGateSnapEnabled (run t es) = polkaGateSnapEnabled t"
  unfolding run_def by (induction es arbitrary: t) (simp_all add: snap_const_step)

lemma run_append: "run t (es @ es') = run (run t es) es'"
  by (simp add: run_def)

lemma flag_stays_false:
  "polling_inv t \<Longrightarrow> \<not> checkingInjectedWeb3 t \<Longrightarrow> \<not> checkingInjectedWeb3 (step t e)"
  by (cases e)
     (auto simp: polling_inv_def tracker_defs totalChecks_def Let_def
           split: probe_outcome.splits)

lemma flag_stays_false_run:
  "polling_inv t \<Longrightarrow> \<not> checkingInjectedWeb3 t \<Longrightarrow> \<not> checkingInjectedWeb3 (run t es)"
  unfolding run_def
  by (induction es arbitrary: t) (simp_all add: polling_inv_step flag_stays_false)

lemma flag_trace_false:
  "polling_inv t \<Longrightarrow> \<not> checkingInjectedWeb3 t \<Longrightarrow>
   flag_trace t es = replicate (Suc (length es)) False"
proof (induction es arbitrary: t)
  case Nil
  then show ?case by simp
next
  case (Cons e es)
  from Cons.prems have "polling_inv (step t e)" "\<not> checkingInjectedWeb3 (step t e)"
    by (simp_all add: polling_inv_step flag_stays_false)
  with Cons.IH have "flag_trace (step t e) es = replicate (Suc (length es)) False"
    by blast
  with Cons.prems show ?case by simp
qed

lemma flag_trace_shape:
  "polling_inv t \<Longrightarrow> checkingInjectedWeb3 t \<Longrightarrow>
   \<exists>n m. flag_trace t es = replicate (Suc n) True @ replicate m False"
proof (induction es arbitrary: t)
  case Nil
  have "flag_trace t [] = replicate (Suc 0) True @ replicate 0 False"
    using Nil.prems by simp
  then show ?case by blast
next
  case (Cons e es)
  have inv': "polling_inv (step t e)"
    using Cons.prems by (simp add: polling_inv_step)
  show ?case
  proof (cases "checkingInjectedWeb3 (step t e)")
    case True
    with Cons.IH inv' obtain n m where
      "flag_trace (step t e) es = replicate (Suc n) True @ replicate m False"
      by blast
    with Cons.prems have
      "flag_trace t (e # es) = replicate (Suc (Suc n)) True @ replicate m False"
      by simp
    then show ?thesis by blast
  next
    case False
    with inv' have "flag_trace (step t e) es = replicate (Suc (length es)) False"
      by (rule flag_trace_false)
    with Cons.prems have
      "flag_trace t (e # es) = replicate (Suc 0) True @ replicate (Suc (length es)) False"
      by simp
    then show ?thesis by blast
  qed
qed

lemma ExtensionsProvider_snap:
  "polkaGateSnapEnabled (ExtensionsProvider options) \<longleftrightarrow>
   (\<exists>opts. options = Some opts \<and> polkagateSnapEnabled opts = Some True)"
  by (auto simp: ExtensionsProvider_def useEffect_run_def split: option.splits)

lemma ten_ticks_no_snap:
  "\<not> polkaGateSnapEnabled (ExtensionsProvider options) \<Longrightarrow>
   run (ExtensionsProvider options) (replicate totalChecks Tick) =
     (ExtensionsProvider options)
       \<lparr>checkingInjectedWeb3 := False, checkingInjectedWeb3Ref := False,
        injectCounter := totalChecks, injectedWeb3IntervalLive := False\<rparr>"
  by (simp add: run_def totalChecks_def eval_nat_numeral ExtensionsProvider_def
        tracker_defs Let_def)

lemma ten_ticks_snap:
  "polkaGateSnapEnabled (ExtensionsProvider options) \<Longrightarrow>
   run (ExtensionsProvider options) (replicate totalChecks Tick) =
     (ExtensionsProvider options)
       \<lparr>injectCounter := totalChecks, injectedWeb3IntervalLive := False,
        snapProbe := Pending\<rparr>"
  by (simp add: run_def totalChecks_def eval_nat_numeral ExtensionsProvider_def
        tracker_defs Let_def)

text \<open>
  What does hold of the flag on every run, whatever the events: it starts true, its
  values are a stretch of \<open>True\<close> followed by a stretch of \<open>False\<close>, so it goes down at
  most once and never comes up again, and it is down exactly when the counter has
  reached \<open>totalChecks\<close> and, with the snap enabled, the promise of the probe has
  been fulfilled.
\<close>

lemma checkingInjectedWeb3_never_reset:
  "checkingInjectedWeb3 (ExtensionsProvider options) \<and>
   (\<exists>n m. flag_trace (ExtensionsProvider options) es =
            replicate (Suc n) True @ replicate m False) \<and>
   (\<not> checkingInjectedWeb3 (run (ExtensionsProvider options) es) \<longleftrightarrow>
      injectCounter (run (ExtensionsProvider options) es) = totalChecks \<and>
      (polkaGateSnapEnabled (ExtensionsProvider options) \<longrightarrow>
         snapProbe (run (ExtensionsProvider options) es) = Done)) \<and>
   (\<not> checkingInjectedWeb3 (run (ExtensionsProvider options) es) \<longrightarrow>
      \<not> checkingInjectedWeb3 (run (ExtensionsProvider options) (es @ es')))"
proof -
  let ?t0 = "ExtensionsProvider options"
  have init: "checkingInjectedWeb3 ?t0"
    by (simp add: ExtensionsProvider_def useEffect_run_def)
  have shape: "\<exists>n m. flag_trace ?t0 es = replicate (Suc n) True @ replicate m False"
    using polling_inv_init init by (rule flag_trace_shape)
  have inv: "polling_inv (run ?t0 es)"
    by (rule run_ExtensionsProvider_inv)
  have iff: "\<not> checkingInjectedWeb3 (run ?t0 es) \<longleftrightarrow>
      injectCounter (run ?t0 es) = totalChecks \<and>
      (polkaGateSnapEnabled ?t0 \<longrightarrow> snapProbe (run ?t0 es) = Done)"
    using inv by (simp add: polling_inv_def snap_const_run)
  have stay: "\<not> checkingInjectedWeb3 (run ?t0 (es @ es'))"
    if "\<not> checkingInjectedWeb3 (run ?t0 es)"
    using inv that by (simp add: run_append flag_stays_false_run)
  from init shape iff stay show ?thesis by blast
qed

subsection \<open>A render before the bound\<close>

lemma stalled_step: "stalled t \<Longrightarrow> stalled (step t e)"
  by (cases e) (auto simp: stalled_def tracker_defs Let_def)

lemma stalled_run: "stalled t \<Longrightarrow> stalled (run t es)"
  unfolding run_def by (induction es arbitrary: t) (simp_all add: stalled_step)

lemma rerender_before_bound_stalls:
  "polling_inv t \<Longrightarrow> injectCounter t < totalChecks \<Longrightarrow> stalled (rerender t)"
  by (auto simp: polling_inv_def stalled_def tracker_defs)

lemma status_update_before_bound_stalls:
  "polling_inv t \<Longrightarrow> injectCounter t < totalChecks \<Longrightarrow>
   stalled (setExtensionStatus eid status t) \<and> stalled (removeExtensionStatus eid t)"
  by (auto simp: polling_inv_def stalled_def tracker_defs Let_def)

text \<open>
  Claim C2, on the code. The flag is not always set to false: a tracker is mounted, the
  timer fires once, and a consumer records the status of an extension. The state update
  renders the provider again; the effect has no dependency array, so the clean-up of its
  first run clears the one timer, and \<open>intervalInitialisedRef\<close> keeps the new run from
  starting another. From then on, whatever happens and however long, the counter stays
  at one and the flag stays true.
\<close>

theorem checkingInjectedWeb3_stuck_after_early_status:
  "checkingInjectedWeb3
     (run (ExtensionsProvider options)
        (Tick # SetExtensionStatus ''talisman'' ''installed'' # es)) \<and>
   injectCounter
     (run (ExtensionsProvider options)
        (Tick # SetExtensionStatus ''talisman'' ''installed'' # es)) < totalChecks \<and>
   checkingInjectedWeb3
     (run (ExtensionsProvider options)
        (Tick # SetExtensionStatus ''talisman'' ''installed'' # replicate totalChecks Tick))"
proof -
  let ?t1 = "step (ExtensionsProvider options) Tick"
  have inv1: "polling_inv ?t1"
    by (rule polling_inv_step) (rule polling_inv_init)
  have count1: "injectCounter ?t1 < totalChecks"
    by (simp add: ExtensionsProvider_def tracker_defs totalChecks_def Let_def)
  have "stalled (setExtensionStatus ''talisman'' ''installed'' ?t1)"
    using inv1 count1 by (simp add: status_update_before_bound_stalls)
  then have "stalled (run (setExtensionStatus ''talisman'' ''installed'' ?t1) es')" for es'
    by (rule stalled_run)
  then have "stalled (run (ExtensionsProvider options)
      (Tick # SetExtensionStatus ''talisman'' ''installed'' # es'))" for es'
    by (simp add: run_def)
  then show ?thesis
    by (simp add: stalled_def)
qed

section \<open>The snap probe\<close>

lemma handleSnapInjection_resume_rejected:
  "handleSnapInjection_resume (Inl e) t = Inl e"
  by (simp add: handleSnapInjection_resume_def)

lemma handleSnapInjection_resume_fulfilled:
  "handleSnapInjection_resume (Inr u) t =
     Inr (rerender (t\<lparr>checkingInjectedWeb3 := False\<rparr>)\<lparr>checkingInjectedWeb3Ref := False\<rparr>)"
  by (simp add: handleSnapInjection_resume_def setStateWithRef_def setCheckingInjectedWeb3_def)

text \<open>
  When the probe resolves, and when the timeout comes first, the function runs to its
  end and the flag, state and ref, is false afterwards.
\<close>

lemma snap_probe_resolved_or_timed_out:
  "snapProbe t = Pending \<Longrightarrow> outcome = Resolved \<or> outcome = TimedOut \<Longrightarrow>
   \<not> checkingInjectedWeb3 (step t (ProbeSettles outcome)) \<and>
   \<not> checkingInjectedWeb3Ref (step t (ProbeSettles outcome)) \<and>
   snapProbe (step t (ProbeSettles outcome)) = Done"
  by (auto simp: withTimeout_def handleSnapInjection_resume_fulfilled rerender_def
        useEffect_cleanup_def useEffect_run_def split: if_splits)

lemma snap_probe_rejected_step:
  "snapProbe t = Pending \<Longrightarrow> step t (ProbeSettles Rejected) = t\<lparr>snapProbe := Failed\<rparr>"
  by (simp add: withTimeout_def handleSnapInjection_resume_rejected)

lemma probe_failed_step: "probe_failed t \<Longrightarrow> probe_failed (step t e)"
  by (cases e) (auto simp: probe_failed_def tracker_defs Let_def)

lemma probe_failed_run: "probe_failed t \<Longrightarrow> probe_failed (run t es)"
  unfolding run_def by (induction es arbitrary: t) (simp_all add: probe_failed_step)

text \<open>
  Claim C3, on the code. A rejection of the probe is not swallowed. With the snap
  enabled the probe is pending after the tenth tick; when it rejects, the awaited
  promise rejects, \<open>handleSnapInjection\<close> is left at the \<open>await\<close> and
  \<open>setStateWithRef(false, ...)\<close> is never reached. From then on, whatever happens, the
  flag, state and ref, stays true.
\<close>

theorem snap_probe_rejection_not_swallowed:
  "handleSnapInjection_resume (withTimeout 500 Rejected) t = Inl ProbeRejected \<and>
   snapProbe
     (run (ExtensionsProvider
             (Some \<lparr>chainSafeSnapEnabled = c, polkagateSnapEnabled = Some True\<rparr>))
        (replicate totalChecks Tick)) = Pending \<and>
   checkingInjectedWeb3
     (run (ExtensionsProvider
             (Some \<lparr>chainSafeSnapEnabled = c, polkagateSnapEnabled = Some True\<rparr>))
        (replicate totalChecks Tick @ ProbeSettles Rejected # es)) \<and>
   checkingInjectedWeb3Ref
     (run (ExtensionsProvider
             (Some \<lparr>chainSafeSnapEnabled = c, polkagateSnapEnabled = Some True\<rparr>))
        (replicate totalChecks Tick @ ProbeSettles Rejected # es))"
proof -
  let ?t0 = "ExtensionsProvider
      (Some \<lparr>chainSafeSnapEnabled = c, polkagateSnapEnabled = Some True\<rparr>)"
  let ?t10 = "run ?t0 (replicate totalChecks Tick)"
  have rejects: "handleSnapInjection_resume (withTimeout 500 Rejected) t = Inl ProbeRejected"
    by (simp add: withTimeout_def handleSnapInjection_resume_rejected)
  have snap: "polkaGateSnapEnabled ?t0"
    by (simp add: ExtensionsProvider_snap)
  have ticks: "?t10 = ?t0\<lparr>injectCounter := totalChecks, injectedWeb3IntervalLive := False,
      snapProbe := Pending\<rparr>"
    using snap by (rule ten_ticks_snap)
  have pending: "snapProbe ?t10 = Pending"
    by (simp add: ticks)
  have "probe_failed (?t10\<lparr>snapProbe := Failed\<rparr>)"
    by (simp add: ticks) (simp add: probe_failed_def ExtensionsProvider_def useEffect_run_def)
  then have "probe_failed (step ?t10 (ProbeSettles Rejected))"
    by (simp only: snap_probe_rejected_step [OF pending])
  then have "probe_failed (run (step ?t10 (ProbeSettles Rejected)) es)"
    by (rule probe_failed_run)
  then have "probe_failed (run ?t0 (replicate totalChecks Tick @ ProbeSettles Rejected # es))"
    by (simp add: run_def)
  with rejects pending show ?thesis
    by (simp add: probe_failed_def)
qed

section \<open>The snap option\<close>

lemma snapProbe_without_snap:
  "\<not> polkaGateSnapEnabled (ExtensionsProvider options) \<Longrightarrow>
   snapProbe (run (ExtensionsProvider options) es) = NotIssued \<and>
   (\<not> checkingInjectedWeb3 (run (ExtensionsProvider options) es) \<longleftrightarrow>
      injectCounter (run (ExtensionsProvider options) es) = totalChecks)"
  using run_ExtensionsProvider_inv [of options es]
  by (simp add: polling_inv_def snap_const_run)

lemma status_stays_empty_step:
  "extensionsStatusRef t = Map.empty \<Longrightarrow> extensionsStatus t = Map.empty \<Longrightarrow>
   \<forall>eid status. e \<noteq> SetExtensionStatus eid status \<Longrightarrow>
   extensionsStatusRef (step t e) = Map.empty \<and> extensionsStatus (step t e) = Map.empty"
  by (cases e) (auto simp: tracker_defs Let_def split: probe_outcome.splits)

lemma status_stays_empty_run:
  "extensionsStatusRef t = Map.empty \<Longrightarrow> extensionsStatus t = Map.empty \<Longrightarrow>
   \<forall>eid status. SetExtensionStatus eid status \<notin> set es \<Longrightarrow>
   extensionsStatusRef (run t es) = Map.empty \<and> extensionsStatus (run t es) = Map.empty"
proof (induction es arbitrary: t)
  case Nil
  then show ?case by (simp add: run_def)
next
  case (Cons e es)
  from Cons.prems(3) have here: "\<forall>eid status. e \<noteq> SetExtensionStatus eid status"
    and rest: "\<forall>eid status. SetExtensionStatus eid status \<notin> set es"
    by auto
  from status_stays_empty_step [OF Cons.prems(1,2) here]
  have "extensionsStatusRef (run (step t e) es) = Map.empty \<and>
        extensionsStatus (run (step t e) es) = Map.empty"
    using Cons.IH rest by blast
  then show ?case by (simp add: run_def)
qed

lemma ExtensionsProvider_status_empty:
  "extensionsStatusRef (ExtensionsProvider options) = Map.empty"
  "extensionsStatus (ExtensionsProvider options) = Map.empty"
  by (simp_all add: ExtensionsProvider_def useEffect_run_def)

text \<open>
  What holds with the snap option disabled (or not given): the probe is never issued, on
  any run; the flag is down exactly when the counter is at \<open>totalChecks\<close>, so the
  transition happens at the tenth tick itself with nothing more to wait for; after the
  ten ticks of an uninterrupted poll window, and after any greater number of them, the
  flag is false and the status mapping is empty; on any run on which no status was set
  the mapping is empty.
\<close>

lemma snap_disabled_uninterrupted_polling:
  "\<not> polkaGateSnapEnabled (ExtensionsProvider options) \<Longrightarrow>
   snapProbe (run (ExtensionsProvider options) es) = NotIssued \<and>
   (\<not> checkingInjectedWeb3 (run (ExtensionsProvider options) es) \<longleftrightarrow>
      injectCounter (run (ExtensionsProvider options) es) = totalChecks) \<and>
   \<not> checkingInjectedWeb3 (run (ExtensionsProvider options) (replicate (totalChecks + k) Tick)) \<and>
   extensionsStatusRef (run (ExtensionsProvider options) (replicate (totalChecks + k) Tick)) =
     Map.empty \<and>
   extensionsStatus (run (ExtensionsProvider options) (replicate (totalChecks + k) Tick)) =
     Map.empty \<and>
   ((\<forall>eid status. SetExtensionStatus eid status \<notin> set es) \<longrightarrow>
      extensionsStatusRef (run (ExtensionsProvider options) es) = Map.empty \<and>
      extensionsStatus (run (ExtensionsProvider options) es) = Map.empty)"
proof -
  let ?t0 = "ExtensionsProvider options"
  assume off: "\<not> polkaGateSnapEnabled ?t0"
  have ten: "\<not> checkingInjectedWeb3 (run ?t0 (replicate totalChecks Tick))"
    by (simp add: ten_ticks_no_snap [OF off])
  have "\<not> checkingInjectedWeb3 (run (run ?t0 (replicate totalChecks Tick)) (replicate k Tick))"
    using run_ExtensionsProvider_inv ten by (rule flag_stays_false_run)
  then have more: "\<not> checkingInjectedWeb3 (run ?t0 (replicate (totalChecks + k) Tick))"
    by (simp add: replicate_add run_append)
  have ticks_only: "\<forall>eid status. SetExtensionStatus eid status \<notin> set (replicate (totalChecks + k) Tick)"
    by auto
  have empty_ticks:
    "extensionsStatusRef (run ?t0 (replicate (totalChecks + k) Tick)) = Map.empty \<and>
     extensionsStatus (run ?t0 (replicate (totalChecks + k) Tick)) = Map.empty"
    using ExtensionsProvider_status_empty ticks_only by (rule status_stays_empty_run)
  have empty_any: "extensionsStatusRef (run ?t0 es) = Map.empty \<and>
      extensionsStatus (run ?t0 es) = Map.empty"
    if "\<forall>eid status. SetExtensionStatus eid status \<notin> set es"
    using ExtensionsProvider_status_empty that by (rule status_stays_empty_run)
  from snapProbe_without_snap [OF off, of es] more empty_ticks empty_any
  show ?thesis by blast
qed

text \<open>
  Claim C6, on the code. With the snap option disabled the transition does not always
  occur within the poll window. A tracker is mounted without options and is rendered
  again before the tenth tick, because its parent renders or because a consumer removes
  the status of an id that has none; no status was ever set. The clean-up of the effect
  clears the one timer and the guard keeps the effect from starting another: however
  many periods go by, the flag stays true. The probe is not issued and the mapping is
  empty, as the claim says.
\<close>

theorem snap_disabled_stuck_after_early_render:
  "\<not> polkaGateSnapEnabled (ExtensionsProvider None) \<and>
   checkingInjectedWeb3 (run (ExtensionsProvider None) (Rerender # es)) \<and>
   checkingInjectedWeb3 (run (ExtensionsProvider None) (RemoveExtensionStatus ''talisman'' # es)) \<and>
   checkingInjectedWeb3 (run (ExtensionsProvider None) (Rerender # replicate totalChecks Tick)) \<and>
   snapProbe (run (ExtensionsProvider None) (Rerender # replicate totalChecks Tick)) = NotIssued \<and>
   extensionsStatusRef (run (ExtensionsProvider None) (Rerender # replicate totalChecks Tick)) =
     Map.empty \<and>
   checkingInjectedWeb3
     (run (ExtensionsProvider None)
        (RemoveExtensionStatus ''talisman'' # replicate totalChecks Tick)) \<and>
   extensionsStatusRef
     (run (ExtensionsProvider None)
        (RemoveExtensionStatus ''talisman'' # replicate totalChecks Tick)) = Map.empty"
proof -
  let ?t0 = "ExtensionsProvider None"
  have off: "\<not> polkaGateSnapEnabled ?t0"
    by (simp add: ExtensionsProvider_snap)
  have start: "injectCounter ?t0 < totalChecks"
    by (simp add: ExtensionsProvider_def useEffect_run_def totalChecks_def)
  have "stalled (rerender ?t0)"
    using polling_inv_init start by (rule rerender_before_bound_stalls)
  then have "stalled (run (rerender ?t0) es')" for es'
    by (rule stalled_run)
  then have render: "stalled (run ?t0 (Rerender # es'))" for es'
    by (simp add: run_def)
  have "stalled (removeExtensionStatus ''talisman'' ?t0)"
    using status_update_before_bound_stalls [OF polling_inv_init start] by simp
  then have "stalled (run (removeExtensionStatus ''talisman'' ?t0) es')" for es'
    by (rule stalled_run)
  then have remove: "stalled (run ?t0 (RemoveExtensionStatus ''talisman'' # es'))" for es'
    by (simp add: run_def)
  have empty_render:
    "extensionsStatusRef (run ?t0 (Rerender # replicate totalChecks Tick)) = Map.empty"
    using status_stays_empty_run
            [where t = ?t0 and es = "Rerender # replicate totalChecks Tick"]
    by (simp add: ExtensionsProvider_status_empty)
  have empty_remove:
    "extensionsStatusRef
       (run ?t0 (RemoveExtensionStatus ''talisman'' # replicate totalChecks Tick)) = Map.empty"
    using status_stays_empty_run
            [where t = ?t0
               and es = "RemoveExtensionStatus ''talisman'' # replicate totalChecks Tick"]
    by (simp add: ExtensionsProvider_status_empty)
  from off render [of es] remove [of es] render [of "replicate totalChecks Tick"]
       remove [of "replicate totalChecks Tick"] empty_render empty_remove
  show ?thesis
    by (simp add: stalled_def)
qed

text \<open>
  Claim C9. The option \<open>chainSafeSnapEnabled\<close> is accepted and never read: two trackers
  whose options differ in it alone are the same tracker after every run, so the status
  mapping, the flag and the answer of every query are the same; an options object that
  gives only this option is as good as none. The option \<open>polkagateSnapEnabled\<close> does
  make a difference: after the ten ticks the flag is down without it and still up, the
  probe pending, with it.
\<close>

theorem chainSafeSnapEnabled_ignored:
  "run (ExtensionsProvider (Some (opts\<lparr>chainSafeSnapEnabled := a\<rparr>))) es =
     run (ExtensionsProvider (Some (opts\<lparr>chainSafeSnapEnabled := b\<rparr>))) es \<and>
   extensionsStatusRef (run (ExtensionsProvider (Some (opts\<lparr>chainSafeSnapEnabled := a\<rparr>))) es) =
     extensionsStatusRef (run (ExtensionsProvider (Some (opts\<lparr>chainSafeSnapEnabled := b\<rparr>))) es) \<and>
   checkingInjectedWeb3 (run (ExtensionsProvider (Some (opts\<lparr>chainSafeSnapEnabled := a\<rparr>))) es) =
     checkingInjectedWeb3 (run (ExtensionsProvider (Some (opts\<lparr>chainSafeSnapEnabled := b\<rparr>))) es) \<and>
   extensionInstalled (run (ExtensionsProvider (Some (opts\<lparr>chainSafeSnapEnabled := a\<rparr>))) es) eid =
     extensionInstalled (run (ExtensionsProvider (Some (opts\<lparr>chainSafeSnapEnabled := b\<rparr>))) es) eid \<and>
   extensionCanConnect (run (ExtensionsProvider (Some (opts\<lparr>chainSafeSnapEnabled := a\<rparr>))) es) eid =
     extensionCanConnect (run (ExtensionsProvider (Some (opts\<lparr>chainSafeSnapEnabled := b\<rparr>))) es) eid \<and>
   ExtensionsProvider (Some \<lparr>chainSafeSnapEnabled = a, polkagateSnapEnabled = None\<rparr>) =
     ExtensionsProvider None \<and>
   checkingInjectedWeb3
     (run (ExtensionsProvider (Some (opts\<lparr>polkagateSnapEnabled := Some True\<rparr>)))
        (replicate totalChecks Tick)) \<noteq>
   checkingInjectedWeb3
     (run (ExtensionsProvider (Some (opts\<lparr>polkagateSnapEnabled := Some False\<rparr>)))
        (replicate totalChecks Tick))"
proof -
  have same: "ExtensionsProvider (Some (opts\<lparr>chainSafeSnapEnabled := a\<rparr>)) =
      ExtensionsProvider (Some (opts\<lparr>chainSafeSnapEnabled := b\<rparr>))"
    by (simp add: ExtensionsProvider_def)
  have none: "ExtensionsProvider (Some \<lparr>chainSafeSnapEnabled = a, polkagateSnapEnabled = None\<rparr>) =
      ExtensionsProvider None"
    by (simp add: ExtensionsProvider_def)
  have on: "polkaGateSnapEnabled (ExtensionsProvider (Some (opts\<lparr>polkagateSnapEnabled := Some True\<rparr>)))"
    by (simp add: ExtensionsProvider_snap)
  have off: "\<not> polkaGateSnapEnabled (ExtensionsProvider (Some (opts\<lparr>polkagateSnapEnabled := Some False\<rparr>)))"
    by (simp add: ExtensionsProvider_snap)
  have up: "checkingInjectedWeb3
     (run (ExtensionsProvider (Some (opts\<lparr>polkagateSnapEnabled := Some True\<rparr>)))
        (replicate totalChecks Tick))"
    by (simp add: ten_ticks_snap [OF on]) (simp add: ExtensionsProvider_def useEffect_run_def)
  have down: "\<not> checkingInjectedWeb3
     (run (ExtensionsProvider (Some (opts\<lparr>polkagateSnapEnabled := Some False\<rparr>)))
        (replicate totalChecks Tick))"
    by (simp add: ten_ticks_no_snap [OF off])
  from up down none show ?thesis
    by (simp add: same)
qed

theorem chainSafeSnapEnabled_ignored_witness:
  "checkingInjectedWeb3
     (run (ExtensionsProvider (Some \<lparr>chainSafeSnapEnabled = Some True, polkagateSnapEnabled = None\<rparr>))
        (replicate 10 Tick)) =
   checkingInjectedWeb3
     (run (ExtensionsProvider (Some \<lparr>chainSafeSnapEnabled = Some False, polkagateSnapEnabled = None\<rparr>))
        (replicate 10 Tick)) \<and>
   \<not> checkingInjectedWeb3
     (run (ExtensionsProvider (Some \<lparr>chainSafeSnapEnabled = Some True, polkagateSnapEnabled = None\<rparr>))
        (replicate 10 Tick))"
proof -
  let ?opts = "\<lparr>chainSafeSnapEnabled = None, polkagateSnapEnabled = None\<rparr>"
  have off: "\<not> polkaGateSnapEnabled
      (ExtensionsProvider (Some \<lparr>chainSafeSnapEnabled = c, polkagateSnapEnabled = None\<rparr>))" for c
    by (simp add: ExtensionsProvider_snap)
  have down: "\<not> checkingInjectedWeb3
     (run (ExtensionsProvider (Some \<lparr>chainSafeSnapEnabled = c, polkagateSnapEnabled = None\<rparr>))
        (replicate totalChecks Tick))" for c
    by (simp add: ten_ticks_no_snap [OF off])
  from chainSafeSnapEnabled_ignored
         [where opts = ?opts and a = "Some True" and b = "Some False"
            and es = "replicate 10 Tick"]
       down [of "Some True"] down [of "Some False"]
  show ?thesis by (simp add: totalChecks_def)
qed

end
